theory Spec2Isabelle
  imports Complex_Main
begin

section \<open>The kinematic-wave overland-flow component\<close>

text \<open>
  A shallow embedding of \<^verbatim>\<open>landlab/components/overland_flow/kinematic_wave_rengers.py\<close>
  (class \<^verbatim>\<open>KinematicWaveRengers\<close>): the constructor, \<^verbatim>\<open>run_one_step\<close>,
  \<^verbatim>\<open>calc_grads_and_timesteps\<close>, \<^verbatim>\<open>update_topographic_params\<close> and the two
  properties \<^verbatim>\<open>water_balance\<close> and \<^verbatim>\<open>internal_timestep\<close>.

  Numbers. A float is a real number here: rounding and overflow are not modelled, and
  the array arithmetic of the flux stage (\<^verbatim>\<open>**\<close> and \<^verbatim>\<open>/\<close> on depth arrays) is
  the arithmetic of the reals, which is what numpy computes (up to rounding) when the
  critical depth, the effective roughness and the grid spacings are nonzero and no depth
  is negative.
  The two scalar divisions that meet a zero denominator in ordinary use (the Courant
  bound on still water, the water-balance ratio on a dry field) follow IEEE: their
  result is an extended value, see \<open>xreal\<close>. Zero has no sign in the model.
\<close>

subsection \<open>Exceptions and extended values\<close>

text \<open>
  The Python exceptions the code can raise. \<open>FloatNaN\<close> is not an exception: it marks
  the one point where numpy would go on with NaN in every depth (a sub-step length that
  is NaN); the arrays of the model hold reals, so the model stops there.
\<close>

datatype error = ValueError | TypeError | IndexError | NameError | AttributeError | FloatNaN

datatype xreal = Fin real | PInf | NInf | NaN

fun ebind :: "error + 'a \<Rightarrow> ('a \<Rightarrow> error + 'b) \<Rightarrow> error + 'b" where
  "ebind (Inl e) f = Inl e"
| "ebind (Inr x) f = f x"

text \<open>Division of two finite floats (numpy scalars: a warning, never an exception).\<close>

definition fdiv :: "real \<Rightarrow> real \<Rightarrow> xreal" where
  "fdiv a b =
     (if b = 0 then (if 0 < a then PInf else if a < 0 then NInf else NaN)
      else Fin (a / b))"

text \<open>\<^verbatim>\<open>np.min((m, c))\<close> for a finite \<open>m\<close>: NaN propagates.\<close>

fun np_min2 :: "real \<Rightarrow> xreal \<Rightarrow> xreal" where
  "np_min2 m (Fin c) = Fin (min m c)"
| "np_min2 m PInf = Fin m"
| "np_min2 m NInf = NInf"
| "np_min2 m NaN = NaN"

text \<open>\<open>r < x\<close> as an IEEE comparison: every comparison with NaN is false.\<close>

fun real_lt :: "real \<Rightarrow> xreal \<Rightarrow> bool" where
  "real_lt r (Fin c) = (r < c)"
| "real_lt r PInf = True"
| "real_lt r NInf = False"
| "real_lt r NaN = False"

text \<open>\<^verbatim>\<open>np.isclose(a, b)\<close> with the default tolerances, on finite floats.\<close>

definition np_isclose :: "real \<Rightarrow> real \<Rightarrow> bool" where
  "np_isclose a b = (\<bar>a - b\<bar> \<le> 1 / 10 ^ 8 + 1 / 10 ^ 5 * \<bar>b\<bar>)"

subsection \<open>numpy indexing\<close>

text \<open>\<^verbatim>\<open>np.where(mask)[0]\<close>: the positions that hold True, ascending.\<close>

definition np_where :: "bool list \<Rightarrow> nat list" where
  "np_where bs = filter (\<lambda>i. bs ! i) [0..<length bs]"

text \<open>\<^verbatim>\<open>xs[idx]\<close> for an array of non-negative indices: a copy, or IndexError.\<close>

definition take_idx :: "'a list \<Rightarrow> nat list \<Rightarrow> error + 'a list" where
  "take_idx xs idx =
     (if list_all (\<lambda>i. i < length xs) idx then Inr (map (\<lambda>i. xs ! i) idx)
      else Inl IndexError)"

text \<open>The same for signed indices: a negative index counts from the end.\<close>

definition wrap_index :: "nat \<Rightarrow> int \<Rightarrow> nat option" where
  "wrap_index len i =
     (let j = (if i < 0 then int len + i else i)
      in if 0 \<le> j \<and> j < int len then Some (nat j) else None)"

fun take_int :: "'a list \<Rightarrow> int list \<Rightarrow> error + 'a list" where
  "take_int xs [] = Inr []"
| "take_int xs (i # rest) =
     (case wrap_index (length xs) i of
        None \<Rightarrow> Inl IndexError
      | Some j \<Rightarrow> ebind (take_int xs rest) (\<lambda>ys. Inr (xs ! j # ys)))"

text \<open>
  \<^verbatim>\<open>xs[mask]\<close> for a boolean mask: the mask must be as long as the array.
\<close>

definition mask_select :: "'a list \<Rightarrow> bool list \<Rightarrow> error + 'a list" where
  "mask_select xs m =
     (if length m = length xs then Inr (map fst (filter snd (zip xs m)))
      else Inl IndexError)"

text \<open>
  \<^verbatim>\<open>xs[mask] = vals\<close>: the values go to the True positions in order; one value is
  broadcast to all of them; any other count is a ValueError.
\<close>

fun mask_fill :: "'a list \<Rightarrow> bool list \<Rightarrow> 'a list \<Rightarrow> 'a list" where
  "mask_fill [] bs vs = []"
| "mask_fill (x # xs) [] vs = x # xs"
| "mask_fill (x # xs) (False # bs) vs = x # mask_fill xs bs vs"
| "mask_fill (x # xs) (True # bs) [] = x # mask_fill xs bs []"
| "mask_fill (x # xs) (True # bs) (v # vs) = v # mask_fill xs bs vs"

definition mask_put :: "'a list \<Rightarrow> bool list \<Rightarrow> 'a list \<Rightarrow> error + 'a list" where
  "mask_put xs m vals =
     (let k = length (filter id m) in
      if length m \<noteq> length xs then Inl IndexError
      else if length vals = k then Inr (mask_fill xs m vals)
      else if length vals = 1 then Inr (mask_fill xs m (replicate k (hd vals)))
      else Inl ValueError)"

text \<open>\<^verbatim>\<open>xs[mask] *= -1.0\<close>.\<close>

definition mask_negate :: "real list \<Rightarrow> bool list \<Rightarrow> error + real list" where
  "mask_negate xs m =
     (if length m = length xs then Inr (map2 (\<lambda>x b. if b then x * (- 1) else x) xs m)
      else Inl IndexError)"

text \<open>\<^verbatim>\<open>xs[idx] = v\<close> for one value \<open>v\<close>, and \<^verbatim>\<open>xs[idx] = vals\<close> for an array.\<close>

definition put_const :: "'a list \<Rightarrow> nat list \<Rightarrow> 'a \<Rightarrow> error + 'a list" where
  "put_const xs idx v =
     (if list_all (\<lambda>i. i < length xs) idx then Inr (foldl (\<lambda>a i. a[i := v]) xs idx)
      else Inl IndexError)"

definition put_idx :: "'a list \<Rightarrow> nat list \<Rightarrow> 'a list \<Rightarrow> error + 'a list" where
  "put_idx xs idx vals =
     (let vals' = (if length vals = 1 then replicate (length idx) (hd vals) else vals) in
      if length vals' \<noteq> length idx then Inl ValueError
      else if list_all (\<lambda>i. i < length xs) idx
      then Inr (foldl (\<lambda>a (i, v). a[i := v]) xs (zip idx vals'))
      else Inl IndexError)"

text \<open>
  Elementwise arithmetic. \<open>bcast2\<close> is a binary operation that makes a new array,
  \<open>inplace2\<close> one that writes into its left operand (\<^verbatim>\<open>+=\<close>, \<^verbatim>\<open>-=\<close>): arrays of
  equal length, or a one-element array against any, else a ValueError.
\<close>

definition bcast2 :: "(real \<Rightarrow> real \<Rightarrow> real) \<Rightarrow> real list \<Rightarrow> real list \<Rightarrow> error + real list" where
  "bcast2 f xs ys =
     (if length xs = length ys then Inr (map2 f xs ys)
      else if length xs = 1 then Inr (map (f (hd xs)) ys)
      else if length ys = 1 then Inr (map (\<lambda>x. f x (hd ys)) xs)
      else Inl ValueError)"

definition inplace2 :: "(real \<Rightarrow> real \<Rightarrow> real) \<Rightarrow> real list \<Rightarrow> real list \<Rightarrow> error + real list" where
  "inplace2 f xs ys =
     (if length ys = length xs then Inr (map2 f xs ys)
      else if length ys = 1 then Inr (map (\<lambda>x. f x (hd ys)) xs)
      else Inl ValueError)"

text \<open>\<^verbatim>\<open>np.fabs(xs).max()\<close>: a ValueError on an empty array.\<close>

definition max_fabs :: "real list \<Rightarrow> error + real" where
  "max_fabs xs =
     (case xs of [] \<Rightarrow> Inl ValueError
      | x # rest \<Rightarrow> Inr (fold (\<lambda>y m. max \<bar>y\<bar> m) rest \<bar>x\<bar>))"

subsection \<open>The grid, as the component uses it\<close>

text \<open>
  The grid class is not part of the sources; the record holds what the component reads
  from it. \<open>is_raster\<close> is the result of \<^verbatim>\<open>isinstance(grid, RasterModelGrid)\<close>.
  \<open>hoz_grads\<close> and \<open>vert_grads\<close> are what the grid returns for
  \<^verbatim>\<open>map_mean_of_horizontal_active_links_to_node\<close> and its vertical sibling applied
  to the link gradients of \<^verbatim>\<open>topographic__elevation\<close>. A row of
  \<open>adjacent_nodes_at_node\<close> is (east, north, west, south). The three \<^verbatim>\<open>at_node\<close>
  fields are the arrays the grid owns; the fields that \<^verbatim>\<open>_info\<close> names are taken to
  exist. The boundary statuses are the grid's symbolic constants
  (\<^verbatim>\<open>BC_NODE_IS_CORE\<close> and so on).
\<close>

datatype node_status =
  BC_NODE_IS_CORE | BC_NODE_IS_FIXED_VALUE | BC_NODE_IS_FIXED_GRADIENT
| BC_NODE_IS_LOOPED | BC_NODE_IS_CLOSED

record grid =
  is_raster :: bool
  number_of_nodes :: nat
  status_at_node :: "node_status list"
  dx :: real
  dy :: real
  adjacent_nodes_at_node :: "(int \<times> int \<times> int \<times> int) list"
  BAD_INDEX :: int
  fixed_gradient_boundary_nodes :: "nat list"
  fixed_gradient_boundary_node_anchor_node :: "nat list"
  hoz_grads :: "real list"
  vert_grads :: "real list"
  surface_water__depth :: "real list"
  surface_water__velocity :: "real list"
  surface_water__discharge :: "real list"

subsection \<open>The component\<close>

text \<open>
  One field per instance attribute; a leading underscore of the source is written
  \<open>p_\<close>. \<^verbatim>\<open>self._h\<close> is the grid's own depth array (a reference, not a copy), so the
  model reads and writes \<open>surface_water__depth (grid s)\<close> for it. \<^verbatim>\<open>hnew\<close> and
  \<^verbatim>\<open>_internal_dt\<close> are not set by the constructor: \<open>None\<close> is the missing attribute.
\<close>

record kwr =
  grid :: grid
  p_active :: "nat list"
  p_hc :: real
  p_n :: real
  p_negepsilon :: real
  dt_max :: "real option"
  min_surface_water_depth :: real
  p_active_depths :: "real list"
  hozslopept5 :: "real list"
  vertslopept5 :: "real list"
  velx :: "real list"
  vely :: "real list"
  qy :: "real list"
  qx :: "real list"
  poshozgrads :: "bool list"
  posvertgrads :: "bool list"
  equaldims :: bool
  courant_prefactor :: real
  p_neighbors :: "(int \<times> int \<times> int \<times> int) list"
  p_water_balance :: "xreal list"
  actives_BCs :: "bool list"
  actives_BCs_water_depth :: "real list"
  fixed_grad_nodes_active :: "nat list"
  fixed_grad_anchors_active :: "nat list"
  hnew :: "real list option"
  p_internal_dt :: "xreal option"

text \<open>\<^verbatim>\<open>nbrs[nbrs == BAD_INDEX] = -1\<close> on the copied neighbour table.\<close>

definition normalize_neighbors :: "int \<Rightarrow> (int \<times> int \<times> int \<times> int) list \<Rightarrow> (int \<times> int \<times> int \<times> int) list" where
  "normalize_neighbors bad nbrs =
     (let f = (\<lambda>i. if i = bad then - 1 else i)
      in map (\<lambda>(e, n, w, s). (f e, f n, f w, f s)) nbrs)"

text \<open>
  The four lines that map the fixed-gradient nodes and their anchors to positions in
  the active array (constructor and \<^verbatim>\<open>update_topographic_params\<close> alike).
\<close>

definition active_positions :: "nat \<Rightarrow> nat list \<Rightarrow> nat list \<Rightarrow> error + nat list" where
  "active_positions nn nodes active =
     ebind (put_const (replicate nn False) nodes True) (\<lambda>blank_nodes.
     ebind (take_idx blank_nodes active) (\<lambda>marked.
     Inr (np_where marked)))"

text \<open>
  \<^verbatim>\<open>__init__\<close>. The test for a raster grid builds a ValueError and drops it (the
  source has no \<^verbatim>\<open>raise\<close> there), so \<open>dropped\<close> is never used. \<^verbatim>\<open>np.isclose\<close>
  raises a TypeError on \<^verbatim>\<open>None\<close>.
\<close>

definition init :: "grid \<Rightarrow> real \<Rightarrow> real \<Rightarrow> real \<Rightarrow> real option \<Rightarrow> real \<Rightarrow> real \<Rightarrow> error + kwr" where
  "init g mannings_n critical_flow_depth mannings_epsilon dt_max0 max_courant min_depth =
     (let dropped = (if \<not> is_raster g then Some ValueError else None) in
      case dt_max0 of
        None \<Rightarrow> Inl TypeError
      | Some m \<Rightarrow>
          if np_isclose m 0 then Inl ValueError
          else
            let active = np_where (map (\<lambda>st. st \<noteq> BC_NODE_IS_CORE) (status_at_node g)) in
            ebind (take_idx (surface_water__depth g) active) (\<lambda>active_depths.
            ebind (take_idx (hoz_grads g) active) (\<lambda>hg.
            ebind (take_idx (vert_grads g) active) (\<lambda>vg.
            ebind (take_idx (status_at_node g) active) (\<lambda>sa.
            let bcs = map (\<lambda>st. st = BC_NODE_IS_FIXED_VALUE) sa in
            ebind (mask_select active_depths bcs) (\<lambda>bc_depth.
            ebind (active_positions (number_of_nodes g) (fixed_gradient_boundary_nodes g) active)
              (\<lambda>fgn.
            ebind (active_positions (number_of_nodes g)
                     (fixed_gradient_boundary_node_anchor_node g) active) (\<lambda>fga.
            Inr \<lparr> grid = g,
                  p_active = active,
                  p_hc = critical_flow_depth,
                  p_n = mannings_n,
                  p_negepsilon = - mannings_epsilon,
                  dt_max = Some m,
                  min_surface_water_depth = min_depth,
                  p_active_depths = active_depths,
                  hozslopept5 = map (\<lambda>x. \<bar>x\<bar> powr 0.5) hg,
                  vertslopept5 = map (\<lambda>x. \<bar>x\<bar> powr 0.5) vg,
                  velx = replicate (number_of_nodes g) 0,
                  vely = replicate (number_of_nodes g) 0,
                  qy = replicate (number_of_nodes g + 1) 0,
                  qx = replicate (number_of_nodes g + 1) 0,
                  poshozgrads = map (\<lambda>x. 0 < x) (hoz_grads g),
                  posvertgrads = map (\<lambda>x. 0 < x) (vert_grads g),
                  equaldims = np_isclose (dx g) (dy g),
                  courant_prefactor =
                    (if np_isclose (dx g) (dy g) then max_courant * dx g
                     else max_courant * dx g * dy g),
                  p_neighbors = normalize_neighbors (BAD_INDEX g) (adjacent_nodes_at_node g),
                  p_water_balance = [],
                  actives_BCs = bcs,
                  actives_BCs_water_depth = bc_depth,
                  fixed_grad_nodes_active = fgn,
                  fixed_grad_anchors_active = fga,
                  hnew = None,
                  p_internal_dt = None \<rparr>))))))))"

subsection \<open>Refreshing the topography\<close>

text \<open>
  The names the module binds at top level are \<^verbatim>\<open>np\<close>, \<^verbatim>\<open>Component\<close>,
  \<^verbatim>\<open>RasterModelGrid\<close> (its two import statements) and the class itself.
  \<^verbatim>\<open>CLOSED_BOUNDARY\<close>, which \<^verbatim>\<open>update_topographic_params\<close> reads as a global,
  is not among them (nor is it a builtin): the lookup raises a NameError.
\<close>

datatype pyobj = Module | Class | Status node_status

definition module_globals :: "(string \<times> pyobj) list" where
  "module_globals =
     [(''np'', Module), (''Component'', Class), (''RasterModelGrid'', Class),
      (''KinematicWaveRengers'', Class)]"

definition lookup_global :: "string \<Rightarrow> error + pyobj" where
  "lookup_global name =
     (case map_of module_globals name of None \<Rightarrow> Inl NameError | Some v \<Rightarrow> Inr v)"

text \<open>
  \<^verbatim>\<open>np.all(np.equal(a, b))\<close> on two index arrays: arrays of different lengths do not
  broadcast (unless one has a single element).
\<close>

definition all_equal :: "nat list \<Rightarrow> nat list \<Rightarrow> error + bool" where
  "all_equal a b =
     (if length a = length b then Inr (list_all2 (=) a b)
      else if length a = 1 then Inr (list_all (\<lambda>y. hd a = y) b)
      else if length b = 1 then Inr (list_all (\<lambda>x. x = hd b) a)
      else Inl ValueError)"

text \<open>
  \<^verbatim>\<open>update_topographic_params\<close>. An exception ends the modelled run: the attributes
  that were assigned before it are not reported.
\<close>

definition update_topographic_params :: "kwr \<Rightarrow> error + kwr" where
  "update_topographic_params s =
     (let g = grid s in
      ebind (lookup_global ''CLOSED_BOUNDARY'') (\<lambda>closed.
      let active = np_where (map (\<lambda>st. Status st \<noteq> closed) (status_at_node g)) in
      ebind (take_idx (hoz_grads g) active) (\<lambda>hg.
      ebind (take_idx (vert_grads g) active) (\<lambda>vg.
      ebind (active_positions (number_of_nodes g) (fixed_gradient_boundary_nodes g) active)
        (\<lambda>fgn.
      ebind (active_positions (number_of_nodes g)
               (fixed_gradient_boundary_node_anchor_node g) active) (\<lambda>fga.
      let s1 = s\<lparr> hozslopept5 := map (\<lambda>x. \<bar>x\<bar> powr 0.5) hg,
                   vertslopept5 := map (\<lambda>x. \<bar>x\<bar> powr 0.5) vg,
                   poshozgrads := map (\<lambda>x. 0 < x) (hoz_grads g),
                   posvertgrads := map (\<lambda>x. 0 < x) (vert_grads g),
                   fixed_grad_nodes_active := fgn,
                   fixed_grad_anchors_active := fga \<rparr> in
      ebind (all_equal (p_active s) active) (\<lambda>same.
      if same then Inr s1
      else
        ebind (take_idx (status_at_node g) active) (\<lambda>sa.
        let bcs = map (\<lambda>st. st = BC_NODE_IS_FIXED_VALUE) sa in
        ebind (mask_select (surface_water__depth g) bcs) (\<lambda>bc_depth.
        Inr (s1\<lparr> p_active := active,
                 velx := map (\<lambda>x. 0) (velx s),
                 vely := map (\<lambda>x. 0) (vely s),
                 qy := map (\<lambda>x. 0) (qy s),
                 qx := map (\<lambda>x. 0) (qx s),
                 p_neighbors := normalize_neighbors (BAD_INDEX g) (adjacent_nodes_at_node g),
                 actives_BCs := bcs,
                 actives_BCs_water_depth := bc_depth \<rparr>))))))))))"

subsection \<open>The gradient and flux stage\<close>

text \<open>
  \<^verbatim>\<open>calc_grads_and_timesteps\<close>: returns the sub-step length and the component with
  its velocity, discharge and depth arrays updated. \<open>active\<close> is read before the
  optional topography refresh, as in the source.
\<close>

definition courant_dt :: "kwr \<Rightarrow> real \<Rightarrow> real \<Rightarrow> xreal" where
  "courant_dt s maxvelx maxvely =
     (if equaldims s then fdiv (courant_prefactor s) (maxvelx + maxvely)
      else fdiv (courant_prefactor s) (dy (grid s) * maxvelx + dx (grid s) * maxvely))"

definition calc_grads_and_timesteps :: "kwr \<Rightarrow> bool \<Rightarrow> bool \<Rightarrow> error + xreal \<times> kwr" where
  "calc_grads_and_timesteps s0 update_topography track_min_depth =
     (let active = p_active s0 in
      case hnew s0 of
        None \<Rightarrow> Inl AttributeError
      | Some hnew0 \<Rightarrow>
      ebind (if update_topography then update_topographic_params s0 else Inr s0) (\<lambda>s.
      let h1 = map (\<lambda>x. max x (min_surface_water_depth s)) hnew0 in
      ebind (if track_min_depth
             then ebind (take_idx (surface_water__depth (grid s)) active) (\<lambda>ha.
                  ebind (bcast2 (\<lambda>a b. a - b) h1 ha) (\<lambda>d.
                  Inr (p_water_balance s @ [fdiv (sum_list d) (sum_list ha)])))
             else Inr (p_water_balance s)) (\<lambda>wb.
      let n = map (\<lambda>x. p_n s * (x / p_hc s) powr p_negepsilon s) h1 in
      ebind (bcast2 (\<lambda>a b. a / b) (map (\<lambda>x. x powr 0.66666666) h1) n) (\<lambda>twothirdshnewbyn.
      ebind (bcast2 (\<lambda>a b. a * b) twothirdshnewbyn (vertslopept5 s)) (\<lambda>vy_act.
      ebind (put_idx (vely s) active vy_act) (\<lambda>vely1.
      ebind (bcast2 (\<lambda>a b. a * b) twothirdshnewbyn (hozslopept5 s)) (\<lambda>vx_act.
      ebind (put_idx (velx s) active vx_act) (\<lambda>velx1.
      ebind (mask_negate vely1 (posvertgrads s)) (\<lambda>vely2.
      ebind (mask_negate velx1 (poshozgrads s)) (\<lambda>velx2.
      ebind (take_idx vely2 active) (\<lambda>vya.
      ebind (bcast2 (\<lambda>a b. a * b) vya h1) (\<lambda>qy_act.
      ebind (put_idx (qy s) active qy_act) (\<lambda>qy1.
      ebind (take_idx velx2 active) (\<lambda>vxa.
      ebind (bcast2 (\<lambda>a b. a * b) vxa h1) (\<lambda>qx_act.
      ebind (put_idx (qx s) active qx_act) (\<lambda>qx1.
      ebind (max_fabs vely2) (\<lambda>maxvely.
      ebind (max_fabs velx2) (\<lambda>maxvelx.
      let c = courant_dt s maxvelx maxvely;
          internal_dt = (case dt_max s of Some m \<Rightarrow> np_min2 m c | None \<Rightarrow> c)
      in Inr (internal_dt,
              s\<lparr> hnew := Some h1, p_water_balance := wb,
                 vely := vely2, velx := velx2, qy := qy1, qx := qx1,
                 p_internal_dt := Some internal_dt \<rparr>)))))))))))))))))))"

subsection \<open>The transport stage\<close>

text \<open>
  The macro step \<^verbatim>\<open>dt\<close> is whatever the caller passes: a Python float (\<open>Py\<close>) or a
  numpy float64 (\<open>Np\<close>). The difference shows in \<^verbatim>\<open>min(internal_dt, remaining_dt).clip(0.0)\<close>:
  the builtin \<^verbatim>\<open>min\<close> returns one of its arguments as it is, and a Python float has no
  method \<^verbatim>\<open>clip\<close>. \<^verbatim>\<open>elapsed_time_in_dt\<close> starts as the Python float 0.0 and is a
  float64 once a sub-step length has been added to it.
\<close>

datatype number = Py real | Np real

fun val :: "number \<Rightarrow> real" where
  "val (Py r) = r"
| "val (Np r) = r"

fun number_sub :: "number \<Rightarrow> number \<Rightarrow> number" where
  "number_sub (Py a) (Py b) = Py (a - b)"
| "number_sub a b = Np (val a - val b)"

text \<open>\<^verbatim>\<open>x.clip(0.0)\<close> on a float64.\<close>

fun clip0 :: "xreal \<Rightarrow> xreal" where
  "clip0 (Fin v) = Fin (max v 0)"
| "clip0 PInf = PInf"
| "clip0 NInf = Fin 0"
| "clip0 NaN = NaN"

text \<open>
  \<^verbatim>\<open>min(internal_dt, remaining_dt).clip(0.0)\<close>, as a finite sub-step length. The
  result of \<open>clip0\<close> is infinite for no input that reaches it (\<open>remaining_dt\<close> is
  finite and wins against \<open>PInf\<close>), and NaN only for a NaN sub-step.
\<close>

definition clipped_dt :: "xreal \<Rightarrow> number \<Rightarrow> error + real" where
  "clipped_dt internal_dt remaining_dt =
     (if real_lt (val remaining_dt) internal_dt
      then (case remaining_dt of
              Py r \<Rightarrow> Inl AttributeError
            | Np r \<Rightarrow> Inr (max r 0))
      else (case clip0 internal_dt of Fin v \<Rightarrow> Inr v | PInf \<Rightarrow> Inl FloatNaN
            | NInf \<Rightarrow> Inl FloatNaN | NaN \<Rightarrow> Inl FloatNaN))"

datatype rainfall = Scalar real | PerNode "real list"

text \<open>
  The body of the \<^verbatim>\<open>while\<close> loop of \<^verbatim>\<open>run_one_step\<close>, in two parts.
  \<open>transport\<close> is the part after the sub-step length is known: the neighbour lookups,
  the rainfall, the fixed-value pin, the four flux updates and the fixed-gradient copy.
  \<open>active\<close> is the local variable of \<^verbatim>\<open>run_one_step\<close>; \<^verbatim>\<open>hnew\<close> is the array
  that \<^verbatim>\<open>self.hnew\<close> names, so the flux stage and this body work on the same array.
\<close>

definition transport :: "kwr \<Rightarrow> real \<Rightarrow> rainfall \<Rightarrow> nat list \<Rightarrow> error + kwr" where
  "transport s internal_dt rainfall_intensity active =
     (let nb = p_neighbors s in
      ebind (take_int (qx s) (map (\<lambda>(e, n, w, so). w) nb)) (\<lambda>qxl.
      ebind (take_int (qx s) (map (\<lambda>(e, n, w, so). e) nb)) (\<lambda>qxr.
      ebind (take_int (qy s) (map (\<lambda>(e, n, w, so). n) nb)) (\<lambda>qyt.
      ebind (take_int (qy s) (map (\<lambda>(e, n, w, so). so) nb)) (\<lambda>qyb.
      let qx_left = map (\<lambda>x. max x 0) qxl;
          qx_right = map (\<lambda>x. min x 0) qxr;
          qy_top = map (\<lambda>x. max x 0) qyt;
          qy_bottom = map (\<lambda>x. min x 0) qyb
      in
      case hnew s of None \<Rightarrow> Inl AttributeError | Some h0 \<Rightarrow>
      ebind (case rainfall_intensity of
               Scalar r \<Rightarrow> Inr (map (\<lambda>x. x + internal_dt * r) h0)
             | PerNode rs \<Rightarrow>
                 ebind (take_idx rs active) (\<lambda>ra.
                 inplace2 (\<lambda>a b. a + b) h0 (map (\<lambda>x. internal_dt * x) ra))) (\<lambda>h1.
      ebind (mask_put h1 (actives_BCs s) (actives_BCs_water_depth s)) (\<lambda>h2.
      ebind (take_idx (qy s) active) (\<lambda>qya.
      ebind (inplace2 (\<lambda>a b. a - b) h2
               (map (\<lambda>x. internal_dt / dx (grid s) * \<bar>x\<bar>) qya)) (\<lambda>h3.
      ebind (take_idx (qx s) active) (\<lambda>qxa.
      ebind (inplace2 (\<lambda>a b. a - b) h3
               (map (\<lambda>x. internal_dt / dy (grid s) * \<bar>x\<bar>) qxa)) (\<lambda>h4.
      ebind (bcast2 (\<lambda>a b. a - b) qy_top qy_bottom) (\<lambda>dqy.
      ebind (take_idx dqy active) (\<lambda>dqya.
      ebind (inplace2 (\<lambda>a b. a + b) h4
               (map (\<lambda>x. internal_dt / dx (grid s) * x) dqya)) (\<lambda>h5.
      ebind (bcast2 (\<lambda>a b. a - b) qx_left qx_right) (\<lambda>dqx.
      ebind (take_idx dqx active) (\<lambda>dqxa.
      ebind (inplace2 (\<lambda>a b. a + b) h5
               (map (\<lambda>x. internal_dt / dy (grid s) * x) dqxa)) (\<lambda>h6.
      ebind (take_idx h6 (fixed_grad_anchors_active s)) (\<lambda>anchors.
      ebind (put_idx h6 (fixed_grad_nodes_active s) anchors) (\<lambda>h7.
      Inr (s\<lparr> hnew := Some h7 \<rparr>))))))))))))))))))))"

definition sub_step ::
  "number \<Rightarrow> rainfall \<Rightarrow> bool \<Rightarrow> bool \<Rightarrow> nat list \<Rightarrow> kwr \<times> number \<Rightarrow> error + kwr \<times> number" where
  "sub_step dt rainfall_intensity update_topography track_min_depth active st =
     (let elapsed_time_in_dt = snd st in
      ebind (calc_grads_and_timesteps (fst st) update_topography track_min_depth) (\<lambda>(idt0, s).
      ebind (clipped_dt idt0 (number_sub dt elapsed_time_in_dt)) (\<lambda>internal_dt.
      ebind (transport s internal_dt rainfall_intensity active) (\<lambda>s'.
      Inr (s', Np (val elapsed_time_in_dt + internal_dt))))))"

text \<open>
  The \<^verbatim>\<open>while\<close> loop. It need not end, so it is a partial function: \<open>None\<close> is
  a loop that runs forever, \<open>Some (Inl e)\<close> an exception raised in the body.
\<close>

partial_function (option) substep_loop ::
  "number \<Rightarrow> rainfall \<Rightarrow> bool \<Rightarrow> bool \<Rightarrow> nat list \<Rightarrow> kwr \<times> number \<Rightarrow> (error + kwr \<times> number) option" where
  "substep_loop dt rainfall_intensity update_topography track_min_depth active st =
     (if val (snd st) < val dt
      then (case sub_step dt rainfall_intensity update_topography track_min_depth active st of
              Inl e \<Rightarrow> Some (Inl e)
            | Inr st' \<Rightarrow>
                substep_loop dt rainfall_intensity update_topography track_min_depth active st')
      else Some (Inr st))"

text \<open>
  The loop unrolled: \<open>substeps n\<close> is the state in which the loop ends when its body
  runs exactly \<open>n\<close> times without an exception, and \<open>None\<close> when it does not end so.
\<close>

fun substeps ::
  "nat \<Rightarrow> number \<Rightarrow> rainfall \<Rightarrow> bool \<Rightarrow> bool \<Rightarrow> nat list \<Rightarrow> kwr \<times> number \<Rightarrow> (kwr \<times> number) option" where
  "substeps 0 dt rainfall_intensity update_topography track_min_depth active st =
     (if val (snd st) < val dt then None else Some st)"
| "substeps (Suc n) dt rainfall_intensity update_topography track_min_depth active st =
     (if val (snd st) < val dt
      then (case sub_step dt rainfall_intensity update_topography track_min_depth active st of
              Inl e \<Rightarrow> None
            | Inr st' \<Rightarrow>
                substeps n dt rainfall_intensity update_topography track_min_depth active st')
      else None)"

text \<open>\<^verbatim>\<open>field[:] = values\<close>.\<close>

definition assign_all :: "real list \<Rightarrow> real list \<Rightarrow> error + real list" where
  "assign_all field vals =
     (if length vals = length field then Inr vals
      else if length vals = 1 then Inr (map (\<lambda>x. hd vals) field)
      else Inl ValueError)"

text \<open>What \<^verbatim>\<open>run_one_step\<close> does once the loop has ended.\<close>

definition write_fields :: "nat list \<Rightarrow> kwr \<Rightarrow> error + kwr" where
  "write_fields active s =
     (case hnew s of None \<Rightarrow> Inl AttributeError | Some h \<Rightarrow>
      ebind (put_idx (surface_water__depth (grid s)) active h) (\<lambda>depth.
      ebind (bcast2 (\<lambda>a b. sqrt (a\<^sup>2 + b\<^sup>2)) (velx s) (vely s)) (\<lambda>speed.
      ebind (assign_all (surface_water__velocity (grid s)) speed) (\<lambda>vfield.
      ebind (bcast2 (\<lambda>a b. sqrt (a\<^sup>2 + b\<^sup>2)) (butlast (qx s)) (butlast (qy s))) (\<lambda>q.
      ebind (assign_all (surface_water__discharge (grid s)) q) (\<lambda>qfield.
      Inr (s\<lparr> grid := (grid s)\<lparr> surface_water__depth := depth,
                                 surface_water__velocity := vfield,
                                 surface_water__discharge := qfield \<rparr> \<rparr>)))))))"

text \<open>\<^verbatim>\<open>run_one_step\<close>.\<close>

definition run_one_step :: "kwr \<Rightarrow> number \<Rightarrow> rainfall \<Rightarrow> bool \<Rightarrow> bool \<Rightarrow> (error + kwr) option" where
  "run_one_step s0 dt rainfall_intensity update_topography track_min_depth =
     (let active = p_active s0 in
      case take_idx (surface_water__depth (grid s0)) active of
        Inl e \<Rightarrow> Some (Inl e)
      | Inr h \<Rightarrow>
          (case (if update_topography then update_topographic_params (s0\<lparr> hnew := Some h \<rparr>)
                 else Inr (s0\<lparr> hnew := Some h \<rparr>)) of
             Inl e \<Rightarrow> Some (Inl e)
           | Inr s1 \<Rightarrow>
               (case substep_loop dt rainfall_intensity update_topography track_min_depth
                       active (s1, Py 0) of
                  None \<Rightarrow> None
                | Some (Inl e) \<Rightarrow> Some (Inl e)
                | Some (Inr st) \<Rightarrow> Some (write_fields active (fst st)))))"

subsection \<open>The two properties\<close>

definition water_balance :: "kwr \<Rightarrow> error + xreal list" where
  "water_balance s =
     (if p_water_balance s = [] then Inl ValueError else Inr (p_water_balance s))"

text \<open>
  \<^verbatim>\<open>internal_timestep\<close>: a missing \<^verbatim>\<open>_internal_dt\<close> is the AttributeError that
  the \<^verbatim>\<open>try\<close> catches; an exception raised in the handler is not caught.
\<close>

definition internal_timestep :: "kwr \<Rightarrow> error + xreal \<times> kwr" where
  "internal_timestep s =
     (case p_internal_dt s of
        Some v \<Rightarrow> Inr (v, s)
      | None \<Rightarrow>
          ebind (calc_grads_and_timesteps s False False) (\<lambda>(discarded, s').
          case p_internal_dt s' of
            Some v \<Rightarrow> Inr (v, s')
          | None \<Rightarrow> Inl AttributeError))"

subsection \<open>Reachable instances\<close>

text \<open>
  The instances a caller can obtain: one built by the constructor, and what the public
  operations return for a reachable one. (A call that raises is not followed further, and
  the caller is taken not to edit the grid between calls.)
\<close>

inductive reachable :: "grid \<Rightarrow> kwr \<Rightarrow> bool" for g :: grid where
  r_init: "init g mannings_n critical_flow_depth mannings_epsilon dtm max_courant min_depth = Inr s
      \<Longrightarrow> reachable g s"
| r_run: "reachable g s \<Longrightarrow> run_one_step s dt rain ut tr = Some (Inr s') \<Longrightarrow> reachable g s'"
| r_calc: "reachable g s \<Longrightarrow> calc_grads_and_timesteps s ut tr = Inr (idt, s') \<Longrightarrow> reachable g s'"
| r_topo: "reachable g s \<Longrightarrow> update_topographic_params s = Inr s' \<Longrightarrow> reachable g s'"
| r_step: "reachable g s \<Longrightarrow> internal_timestep s = Inr (v, s') \<Longrightarrow> reachable g s'"

subsection \<open>Example instances\<close>

text \<open>
  A 3 by 3 raster with unit spacing: node 4 is the core node, the eight perimeter nodes
  share the status \<open>edge\<close>. \<open>hg\<close> is the horizontal gradient the grid maps to the nodes
  (the vertical one is zero), \<open>depth\<close> the water depth field.
\<close>

definition raster3x3 :: "node_status \<Rightarrow> real list \<Rightarrow> real list \<Rightarrow> grid" where
  "raster3x3 edge hg depth =
     \<lparr> is_raster = True, number_of_nodes = 9,
       status_at_node = [edge, edge, edge, edge, BC_NODE_IS_CORE, edge, edge, edge, edge],
       dx = 1, dy = 1,
       adjacent_nodes_at_node =
         [(1, 3, - 1, - 1), (2, 4, 0, - 1), (- 1, 5, 1, - 1),
          (4, 6, - 1, 0), (5, 7, 3, 1), (- 1, 8, 4, 2),
          (7, - 1, - 1, 3), (8, - 1, 6, 4), (- 1, - 1, 7, 5)],
       BAD_INDEX = - 1,
       fixed_gradient_boundary_nodes = [],
       fixed_gradient_boundary_node_anchor_node = [],
       hoz_grads = hg, vert_grads = replicate 9 0,
       surface_water__depth = depth,
       surface_water__velocity = replicate 9 0,
       surface_water__discharge = replicate 9 0 \<rparr>"

definition perimeter :: "nat list" where
  "perimeter = [0, 1, 2, 3, 5, 6, 7, 8]"

text \<open>Closed perimeter, flat terrain.\<close>

definition closed3x3 :: grid where
  "closed3x3 = raster3x3 BC_NODE_IS_CLOSED (replicate 9 0) (replicate 9 1)"

text \<open>
  Fixed-value perimeter (the default of a raster grid), terrain rising to the east in the
  middle row, water one unit deep everywhere.
\<close>

definition open3x3 :: grid where
  "open3x3 = raster3x3 BC_NODE_IS_FIXED_VALUE [0, 0, 0, 1, 1, 1, 0, 0, 0] (replicate 9 1)"

text \<open>
  The component that the constructor builds on \<open>open3x3\<close> with Manning's n, the critical
  depth and the depth floor all 1, exponent 1/3, Courant number 0.2 and largest sub-step
  \<open>m\<close>.
\<close>

definition kw_open :: "real \<Rightarrow> kwr" where
  "kw_open m = \<lparr> grid = open3x3,
       p_active = perimeter,
       p_hc = 1, p_n = 1, p_negepsilon = - (1 / 3),
       dt_max = Some m, min_surface_water_depth = 1,
       p_active_depths = replicate 8 1,
       hozslopept5 = [0, 0, 0, 1, 1, 0, 0, 0],
       vertslopept5 = replicate 8 0,
       velx = replicate 9 0, vely = replicate 9 0,
       qy = replicate 10 0, qx = replicate 10 0,
       poshozgrads = [False, False, False, True, True, True, False, False, False],
       posvertgrads = replicate 9 False,
       equaldims = True, courant_prefactor = 0.2,
       p_neighbors = adjacent_nodes_at_node open3x3,
       p_water_balance = [],
       actives_BCs = replicate 8 True,
       actives_BCs_water_depth = replicate 8 1,
       fixed_grad_nodes_active = [], fixed_grad_anchors_active = [],
       hnew = None, p_internal_dt = None \<rparr>"

definition kw0 :: kwr where
  "kw0 = kw_open 0.3"

text \<open>\<open>kw0\<close> on entry to the loop, after the flux stage, and after one sub-step.\<close>

definition kw_entry :: kwr where
  "kw_entry = kw0\<lparr> hnew := Some (replicate 8 1) \<rparr>"

definition kw1 :: kwr where
  "kw1 = kw0\<lparr> hnew := Some [1, 1, 1, 1, 1, 1, 1, 1],
              velx := [0, 0, 0, - 1, 0, - 1, 0, 0, 0],
              qx := [0, 0, 0, - 1, 0, - 1, 0, 0, 0, 0],
              p_internal_dt := Some (Fin 0.2) \<rparr>"

definition kw2 :: kwr where
  "kw2 = kw1\<lparr> hnew := Some [1, 1, 1, 0.8, 0.8, 1, 1, 1] \<rparr>"

definition dt02 :: number where
  "dt02 = Py 0.2"

definition t02 :: number where
  "t02 = Np 0.2"

text \<open>\<open>kw0\<close> when \<^verbatim>\<open>run_one_step\<close> returns from a macro step of 0.2 without rain.\<close>

definition kw3 :: kwr where
  "kw3 = kw2\<lparr> grid := open3x3\<lparr>
            surface_water__depth := [1, 1, 1, 0.8, 1, 0.8, 1, 1, 1],
            surface_water__velocity := [0, 0, 0, 1, 0, 1, 0, 0, 0],
            surface_water__discharge := [0, 0, 0, 1, 0, 1, 0, 0, 0] \<rparr> \<rparr>"









text \<open>
  The raster \<open>open3x3\<close> with node 0 only half a unit deep, below the depth floor of 1:
  the component the constructor builds, on entry to the loop, after the flux stage with
  mass-balance tracking, after the sub-step, and when \<^verbatim>\<open>run_one_step\<close> returns from a
  tracked macro step of 0.2.
\<close>

definition dry3x3 :: grid where
  "dry3x3 = open3x3\<lparr> surface_water__depth := [1 / 2, 1, 1, 1, 1, 1, 1, 1, 1] \<rparr>"

definition kw_dry :: kwr where
  "kw_dry = kw0\<lparr> grid := dry3x3,
       p_active_depths := [1 / 2, 1, 1, 1, 1, 1, 1, 1],
       actives_BCs_water_depth := [1 / 2, 1, 1, 1, 1, 1, 1, 1] \<rparr>"

definition kw_dry_entry :: kwr where
  "kw_dry_entry = kw_dry\<lparr> hnew := Some [1 / 2, 1, 1, 1, 1, 1, 1, 1] \<rparr>"

definition kw_dry1 :: kwr where
  "kw_dry1 = kw_dry\<lparr> hnew := Some [1, 1, 1, 1, 1, 1, 1, 1],
       p_water_balance := [Fin (1 / 15)],
       velx := [0, 0, 0, - 1, 0, - 1, 0, 0, 0],
       qx := [0, 0, 0, - 1, 0, - 1, 0, 0, 0, 0],
       p_internal_dt := Some (Fin 0.2) \<rparr>"

definition kw_dry2 :: kwr where
  "kw_dry2 = kw_dry1\<lparr> hnew := Some [1 / 2, 1, 1, 0.8, 0.8, 1, 1, 1] \<rparr>"

definition kw_dry3 :: kwr where
  "kw_dry3 = kw_dry2\<lparr> grid := dry3x3\<lparr>
            surface_water__depth := [1 / 2, 1, 1, 0.8, 1, 0.8, 1, 1, 1],
            surface_water__velocity := [0, 0, 0, 1, 0, 1, 0, 0, 0],
            surface_water__discharge := [0, 0, 0, 1, 0, 1, 0, 0, 0] \<rparr> \<rparr>"

text \<open>The same component with a largest sub-step of -1, built and after one sub-step.\<close>

definition kwn0 :: kwr where
  "kwn0 = kw_open (- 1)"

definition kwn1 :: kwr where
  "kwn1 = kwn0\<lparr> hnew := Some [1, 1, 1, 1, 1, 1, 1, 1],
              velx := [0, 0, 0, - 1, 0, - 1, 0, 0, 0],
              qx := [0, 0, 0, - 1, 0, - 1, 0, 0, 0, 0],
              p_internal_dt := Some (Fin (- 1)) \<rparr>"

subsection \<open>An invariant of the discharge arrays\<close>

text \<open>
  The last slot of \<^verbatim>\<open>qx\<close> and \<^verbatim>\<open>qy\<close> is zero, no active index reaches it, and the
  neighbour table is the grid's with the sentinel replaced.
\<close>

definition slot_ok :: "grid \<Rightarrow> kwr \<Rightarrow> bool" where
  "slot_ok g s =
     (number_of_nodes (grid s) = number_of_nodes g
      \<and> length (qx s) = number_of_nodes g + 1 \<and> length (qy s) = number_of_nodes g + 1
      \<and> qx s ! number_of_nodes g = 0 \<and> qy s ! number_of_nodes g = 0
      \<and> list_all (\<lambda>i. i < number_of_nodes g) (p_active s)
      \<and> p_neighbors s = normalize_neighbors (BAD_INDEX g) (adjacent_nodes_at_node g))"

subsection \<open>An invariant of the spacing flag and the velocity arrays\<close>


section \<open>Properties\<close>

subsection \<open>Evaluating the examples\<close>

lemma replicate8: "replicate 8 x = [x, x, x, x, x, x, x, x]"
  by (simp add: numeral_eq_Suc)

lemma replicate9: "replicate 9 x = [x, x, x, x, x, x, x, x, x]"
  by (simp add: numeral_eq_Suc)

lemma replicate10: "replicate 10 x = [x, x, x, x, x, x, x, x, x, x]"
  by (simp add: numeral_eq_Suc)

lemma where_perimeter:
  "np_where [True, True, True, True, False, True, True, True, True] = [0, 1, 2, 3, 5, 6, 7, 8]"
  by code_simp

lemma where_none: "np_where [False, False, False, False, False, False, False, False] = []"
  by code_simp

lemma list_update_Cons_numeral: "(x # xs)[numeral k := y] = x # xs[pred_numeral k := y]"
  by (simp add: numeral_eq_Suc)

lemmas arr_defs = take_idx_def mask_select_def mask_put_def mask_negate_def put_idx_def
  bcast2_def inplace2_def max_fabs_def wrap_index_def fdiv_def courant_dt_def assign_all_def

lemmas init_defs = init_def Let_def where_perimeter where_none take_idx_def mask_select_def
  active_positions_def put_const_def normalize_neighbors_def np_isclose_def
  replicate8 replicate9 replicate10

lemmas ex_defs = kw_entry_def kw3_def kw2_def kw1_def kw0_def kw_open_def open3x3_def raster3x3_def
  perimeter_def dt02_def t02_def

lemma init_open: "init open3x3 1 1 (1 / 3) (Some 0.3) 0.2 1 = Inr kw0"
  by (simp add: init_defs open3x3_def raster3x3_def kw0_def kw_open_def perimeter_def)

lemma calc_entry: "calc_grads_and_timesteps kw_entry False False = Inr (Fin 0.2, kw1)"
  by (simp add: calc_grads_and_timesteps_def ex_defs Let_def
      arr_defs replicate8 replicate9 replicate10 list_update_Cons_numeral)

lemma transport_kw1: "transport kw1 (1 / 5) (Scalar 0) perimeter = Inr kw2"
  by (simp add: transport_def ex_defs Let_def arr_defs replicate8 replicate9 replicate10
      list_update_Cons_numeral)

lemma sub_step_entry:
  "sub_step dt02 (Scalar 0) False False perimeter (kw_entry, Py 0) = Inr (kw2, t02)"
  by (simp add: sub_step_def calc_entry clipped_dt_def dt02_def t02_def transport_kw1)

lemma substep_loop_entry:
  "substep_loop dt02 (Scalar 0) False False perimeter (kw_entry, Py 0) = Some (Inr (kw2, t02))"
  apply (subst substep_loop.simps)
  apply (simp add: sub_step_entry)
  apply (simp add: dt02_def)
  apply (subst substep_loop.simps)
  apply (simp add: t02_def)
  done

lemma p_active_kw0: "p_active kw0 = perimeter"
  by (simp add: kw0_def kw_open_def)

lemma depth_entry: "take_idx (surface_water__depth (grid kw0)) perimeter = Inr (replicate 8 1)"
  by (simp add: ex_defs take_idx_def replicate8 replicate9)

lemma write_fields_kw2: "write_fields perimeter kw2 = Inr kw3"
  by (simp add: write_fields_def ex_defs arr_defs replicate8 replicate9 replicate10
      list_update_Cons_numeral)

lemma run_kw0: "run_one_step kw0 dt02 (Scalar 0) False False = Some (Inr kw3)"
  by (simp add: run_one_step_def Let_def p_active_kw0 depth_entry kw_entry_def[symmetric]
      substep_loop_entry write_fields_kw2)

lemma val_dt02: "val dt02 = 1 / 5"
  by (simp add: dt02_def)


lemma val_t02: "val t02 = 1 / 5"
  by (simp add: t02_def)

lemma python_float_step_raises:
  "run_one_step kw0 (Py 0.1) (Scalar 0) False False = Some (Inl AttributeError)"
proof -
  have s: "sub_step (Py 0.1) (Scalar 0) False False perimeter (kw_entry, Py 0)
             = Inl AttributeError"
    by (simp add: sub_step_def calc_entry clipped_dt_def)
  have l: "substep_loop (Py 0.1) (Scalar 0) False False perimeter (kw_entry, Py 0)
             = Some (Inl AttributeError)"
    by (subst substep_loop.simps) (simp add: s)
  show ?thesis
    by (simp add: run_one_step_def Let_def p_active_kw0 depth_entry kw_entry_def[symmetric] l)
qed












lemmas dry_defs = kw_dry3_def kw_dry2_def kw_dry1_def kw_dry_entry_def kw_dry_def dry3x3_def
  kw0_def kw_open_def open3x3_def raster3x3_def perimeter_def

lemma init_dry: "init dry3x3 1 1 (1 / 3) (Some 0.3) 0.2 1 = Inr kw_dry"
  by (simp add: init_defs dry_defs)

lemma calc_dry: "calc_grads_and_timesteps kw_dry_entry False True = Inr (Fin 0.2, kw_dry1)"
  by (simp add: calc_grads_and_timesteps_def dry_defs Let_def
      arr_defs replicate8 replicate9 replicate10 list_update_Cons_numeral)

lemma transport_dry: "transport kw_dry1 (1 / 5) (Scalar 0) perimeter = Inr kw_dry2"
  by (simp add: transport_def dry_defs Let_def arr_defs replicate8 replicate9 replicate10
      list_update_Cons_numeral)

lemma sub_step_dry:
  "sub_step dt02 (Scalar 0) False True perimeter (kw_dry_entry, Py 0) = Inr (kw_dry2, t02)"
  by (simp add: sub_step_def calc_dry clipped_dt_def dt02_def t02_def transport_dry)

lemma substep_loop_dry:
  "substep_loop dt02 (Scalar 0) False True perimeter (kw_dry_entry, Py 0)
     = Some (Inr (kw_dry2, t02))"
  apply (subst substep_loop.simps)
  apply (simp add: sub_step_dry val_dt02)
  apply (subst substep_loop.simps)
  apply (simp add: val_dt02 val_t02)
  done

lemma substeps_dry:
  "substeps 1 dt02 (Scalar 0) False True perimeter (kw_dry_entry, Py 0) = Some (kw_dry2, t02)"
  by (simp add: sub_step_dry val_dt02 val_t02)

lemma write_fields_dry: "write_fields perimeter kw_dry2 = Inr kw_dry3"
  by (simp add: write_fields_def dry_defs arr_defs replicate8 replicate9 replicate10
      list_update_Cons_numeral)

lemma depth_dry:
  "take_idx (surface_water__depth (grid kw_dry)) perimeter = Inr [1 / 2, 1, 1, 1, 1, 1, 1, 1]"
  by (simp add: dry_defs take_idx_def replicate8 replicate9)

lemma run_dry: "run_one_step kw_dry dt02 (Scalar 0) False True = Some (Inr kw_dry3)"
proof -
  have a: "p_active kw_dry = perimeter" by (simp add: dry_defs)
  show ?thesis
    by (simp add: run_one_step_def Let_def a depth_dry kw_dry_entry_def[symmetric]
        substep_loop_dry write_fields_dry)
qed

subsection \<open>Results of \<open>ebind\<close>\<close>

lemma ebind_InrE: "ebind m f = Inr y \<Longrightarrow> (\<And>x. m = Inr x \<Longrightarrow> f x = Inr y \<Longrightarrow> P) \<Longrightarrow> P"
  by (cases m) auto

lemma init_fresh:
  assumes "init g a b c d e f = Inr s"
  shows "hnew s = None \<and> p_internal_dt s = None \<and> p_water_balance s = []"
  using assms
  by (auto simp: init_def Let_def elim!: ebind_InrE split: option.splits if_splits)

lemma update_topographic_params_NameError: "update_topographic_params s = Inl NameError"
  by (simp add: update_topographic_params_def lookup_global_def module_globals_def Let_def)

subsection \<open>The constructor\<close>

text \<open>
  Claim C1 (the cached active-node set is the set of nodes that are not closed; every core
  node is in it). The constructor selects with \<^verbatim>\<open>status != BC_NODE_IS_CORE\<close>: on the
  3 by 3 raster with a closed perimeter it caches the eight closed nodes and leaves out
  node 4, the only core node.
\<close>

theorem init_active_set_excludes_core:
  "map_sum id p_active (init closed3x3 0.03 0.003 0.33333333 (Some 0.3) 0.2 (1 / 10 ^ 8))
     = Inr [0, 1, 2, 3, 5, 6, 7, 8]
   \<and> status_at_node closed3x3 ! 4 = BC_NODE_IS_CORE
   \<and> status_at_node closed3x3 ! 0 = BC_NODE_IS_CLOSED"
  by (simp add: init_defs closed3x3_def raster3x3_def)

text \<open>
  Claim C6 (construction fails on a grid that is not a raster, and on a zero maximum
  sub-step). The ValueError for the grid is built and never raised: a grid that is not
  an instance of \<^verbatim>\<open>RasterModelGrid\<close> and offers the same attributes is accepted.
\<close>

theorem init_accepts_non_raster_grid:
  "init (open3x3\<lparr> is_raster := False \<rparr>) 1 1 (1 / 3) (Some 0.3) 0.2 1
     = Inr (kw0\<lparr> grid := open3x3\<lparr> is_raster := False \<rparr> \<rparr>)"
  by (simp add: init_defs open3x3_def raster3x3_def kw0_def kw_open_def perimeter_def)

subsection \<open>The accessors and the topography refresh\<close>

text \<open>
  Claim C7 (reading \<^verbatim>\<open>internal_timestep\<close> before the first advance computes a
  sub-step length and returns it). On every instance the constructor returns, the
  fallback calls the flux stage, which reads \<^verbatim>\<open>self.hnew\<close>; only \<^verbatim>\<open>run_one_step\<close>
  sets that attribute, so the read raises an AttributeError inside the handler.
\<close>

theorem internal_timestep_before_first_run:
  "init g mannings_n critical_flow_depth mannings_epsilon dtm max_courant min_depth = Inr s
     \<Longrightarrow> internal_timestep s = Inl AttributeError"
  by (simp add: internal_timestep_def calc_grads_and_timesteps_def init_fresh Let_def)

theorem internal_timestep_before_first_run_witness:
  "init open3x3 1 1 (1 / 3) (Some 0.3) 0.2 1 = Inr kw0
   \<and> internal_timestep kw0 = Inl AttributeError"
  using internal_timestep_before_first_run [OF init_open] init_open by simp

text \<open>
  Claim C8 (two topography refreshes in a row succeed and leave the same cached state).
  The first statement of \<^verbatim>\<open>update_topographic_params\<close> reads the global
  \<^verbatim>\<open>CLOSED_BOUNDARY\<close>, which the module never binds: every call raises a NameError.
\<close>

theorem update_topographic_params_raises: "update_topographic_params s = Inl NameError"
  by (simp add: update_topographic_params_def lookup_global_def module_globals_def Let_def)

subsection \<open>One advance on the open raster\<close>

text \<open>
  Claim C2 (a fixed-value boundary node holds its configured depth at the end of every
  sub-step and in the field written back). Node 3 of \<open>open3x3\<close> is a fixed-value
  boundary node and is active, with configured depth 1. One advance of 0.2 without rain
  takes one sub-step; the pin sets the node to 1, the flux update that follows takes
  0.2 off, and the field holds 0.8 when \<^verbatim>\<open>run_one_step\<close> returns.
\<close>

theorem fixed_value_node_after_step:
  "status_at_node (grid kw0) ! 3 = BC_NODE_IS_FIXED_VALUE
   \<and> p_active kw0 ! 3 = 3 \<and> actives_BCs kw0 ! 3 \<and> actives_BCs_water_depth kw0 ! 3 = 1
   \<and> run_one_step kw0 dt02 (Scalar 0) False False = Some (Inr kw3)
   \<and> surface_water__depth (grid kw3) ! 3 = 0.8"
  by (simp add: run_kw0) (simp add: ex_defs replicate8)

text \<open>
  Claim C3 (the depth at an active node is never below the minimum-depth floor, before
  and after an advance). The floor of \<open>kw0\<close> is 1 and every depth is 1 before the call;
  the floor is applied at the start of a sub-step only, and the advance returns with
  0.8 at the active node 3.
\<close>

theorem depth_below_floor_after_step:
  "min_surface_water_depth kw0 = 1
   \<and> list_all (\<lambda>h. min_surface_water_depth kw0 \<le> h) (surface_water__depth (grid kw0))
   \<and> run_one_step kw0 dt02 (Scalar 0) False False = Some (Inr kw3)
   \<and> min_surface_water_depth kw3 = 1
   \<and> 3 \<in> set (p_active kw3)
   \<and> surface_water__depth (grid kw3) ! 3 < min_surface_water_depth kw3"
  by (simp add: run_kw0) (simp add: ex_defs replicate9)

subsection \<open>What the stages change\<close>

lemma calc_fields:
  assumes "calc_grads_and_timesteps s ut tr = Inr (idt, s')"
  shows "(if tr then \<exists>x. p_water_balance s' = p_water_balance s @ [x]
          else p_water_balance s' = p_water_balance s)
         \<and> (\<exists>v. put_idx (qy s) (p_active s) v = Inr (qy s'))
         \<and> (\<exists>v. put_idx (qx s) (p_active s) v = Inr (qx s'))
         \<and> (\<exists>mx my. max_fabs (velx s') = Inr mx \<and> max_fabs (vely s') = Inr my
         \<and> idt = (case dt_max s of Some m \<Rightarrow> np_min2 m (courant_dt s mx my)
                   | None \<Rightarrow> courant_dt s mx my))
         \<and> p_internal_dt s' = Some idt \<and> hnew s' \<noteq> None
         \<and> grid s' = grid s \<and> p_active s' = p_active s \<and> p_neighbors s' = p_neighbors s
         \<and> dt_max s' = dt_max s \<and> equaldims s' = equaldims s
         \<and> courant_prefactor s' = courant_prefactor s"
proof (cases ut)
  case True
  with assms show ?thesis
    by (simp add: calc_grads_and_timesteps_def Let_def update_topographic_params_NameError
        split: option.splits)
next
  case False
  from assms obtain h0 where h0: "hnew s = Some h0"
    by (auto simp: calc_grads_and_timesteps_def Let_def split: option.splits)
  from assms show ?thesis
    unfolding calc_grads_and_timesteps_def Let_def h0 using False
    apply simp
    apply (erule ebind_InrE)+
    apply (cases tr)
     apply (auto elim!: ebind_InrE)
    done
qed

lemma transport_fields:
  assumes "transport s d rain act = Inr s'"
  shows "\<exists>h. s' = s\<lparr> hnew := Some h \<rparr>"
proof (cases "hnew s")
  case None
  with assms show ?thesis
    unfolding transport_def
    apply (simp only: Let_def)
    apply (erule ebind_InrE)+
    apply simp
    done
next
  case (Some h0)
  with assms show ?thesis
    unfolding transport_def
    apply (simp only: Let_def option.case)
    apply (erule ebind_InrE)+
    apply (rule exI)
    apply (simp only: sum.inject)
    apply (erule sym)
    done
qed

lemma sub_step_parts:
  assumes "sub_step dt rain ut tr act (s, e) = Inr (s', e')"
  obtains idt s1 d where "calc_grads_and_timesteps s ut tr = Inr (idt, s1)"
    and "clipped_dt idt (number_sub dt e) = Inr d"
    and "transport s1 d rain act = Inr s'"
    and "e' = Np (val e + d)"
  using assms unfolding sub_step_def Let_def
  apply simp
  apply (erule ebind_InrE)
  apply (simp split: prod.splits)
  apply (erule ebind_InrE)+
  apply auto
  done

subsection \<open>The trailing slot of the discharge arrays\<close>

lemma foldl_update_length: "length (foldl (\<lambda>a (i, v). a[i := v]) xs ps) = length xs"
  by (induction ps arbitrary: xs) (auto split: prod.splits)

lemma foldl_update_nth:
  "k \<notin> fst ` set ps \<Longrightarrow> foldl (\<lambda>a (i, v). a[i := v]) xs ps ! k = xs ! k"
  by (induction ps arbitrary: xs) (auto split: prod.splits)

lemma put_idx_keeps:
  assumes "put_idx xs idx vals = Inr ys" and "k \<notin> set idx"
  shows "length ys = length xs \<and> ys ! k = xs ! k"
proof -
  have "k \<notin> fst ` set (zip idx zs)" for zs :: "'a list"
    using assms(2) by (auto dest: set_zip_leftD)
  with assms(1) show ?thesis
    by (auto simp: put_idx_def Let_def foldl_update_length foldl_update_nth split: if_splits)
qed

lemma np_where_bound: "list_all (\<lambda>i. i < length bs) (np_where bs)"
  by (simp add: np_where_def list_all_iff)

lemma nth_zero_replicate: "(0 # replicate n (0::real)) ! n = 0"
  using nth_replicate [of n "Suc n" "0::real"] by simp

lemma init_slot_ok:
  assumes "init g a b c d e f = Inr s" and "length (status_at_node g) = number_of_nodes g"
  shows "slot_ok g s"
  using assms np_where_bound [of "map (\<lambda>st. st \<noteq> BC_NODE_IS_CORE) (status_at_node g)"]
  by (auto simp: init_def Let_def slot_ok_def nth_zero_replicate elim!: ebind_InrE
      split: option.splits if_splits)

lemma calc_slot_ok:
  assumes "calc_grads_and_timesteps s ut tr = Inr (idt, s')" and "slot_ok g s"
  shows "slot_ok g s'"
proof -
  let ?n = "number_of_nodes g"
  from assms(2) have n: "?n \<notin> set (p_active s)"
    by (auto simp: slot_ok_def list_all_iff)
  from calc_fields [OF assms(1)] obtain v w where
    q: "put_idx (qy s) (p_active s) v = Inr (qy s')" "put_idx (qx s) (p_active s) w = Inr (qx s')"
    and r: "grid s' = grid s" "p_active s' = p_active s" "p_neighbors s' = p_neighbors s"
    by blast
  from put_idx_keeps [OF q(1) n] put_idx_keeps [OF q(2) n] r assms(2)
  show ?thesis by (simp add: slot_ok_def)
qed

lemma transport_slot_ok:
  assumes "transport s d rain act = Inr s'" and "slot_ok g s"
  shows "slot_ok g s'"
  using transport_fields [OF assms(1)] assms(2) by (auto simp: slot_ok_def)

lemma sub_step_slot_ok:
  assumes "sub_step dt rain ut tr act (s, e) = Inr (s', e')" and "slot_ok g s"
  shows "slot_ok g s'"
  using assms(1)
  by (rule sub_step_parts) (blast intro: calc_slot_ok transport_slot_ok assms(2))

lemma substep_loop_invariant:
  assumes run: "substep_loop dt rain ut tr act st = Some (Inr st')"
    and "J (fst st)"
    and step: "\<And>s e s' e'. J s \<Longrightarrow> sub_step dt rain ut tr act (s, e) = Inr (s', e') \<Longrightarrow> J s'"
  shows "J (fst st')"
proof -
  let ?P = "\<lambda>(dt0::number) (rain0::rainfall) (ut0::bool) (tr0::bool) (act0::nat list)
      (st0::kwr \<times> number) (res::error + kwr \<times> number).
      dt0 = dt \<and> rain0 = rain \<and> ut0 = ut \<and> tr0 = tr \<and> act0 = act \<and> J (fst st0)
        \<longrightarrow> (case res of Inl e \<Rightarrow> True | Inr st1 \<Rightarrow> J (fst st1))"
  have "?P dt rain ut tr act st (Inr st')"
  proof (rule substep_loop.raw_induct [where P = ?P, OF _ run])
    fix loop dt0 rain0 ut0 tr0 act0 st0 res
    assume ih: "\<And>dt1 rain1 ut1 tr1 act1 st1 res1.
        loop dt1 rain1 ut1 tr1 act1 st1 = Some res1 \<Longrightarrow> ?P dt1 rain1 ut1 tr1 act1 st1 res1"
      and body: "(if val (snd st0) < val dt0
          then case sub_step dt0 rain0 ut0 tr0 act0 st0 of
                 Inl e \<Rightarrow> Some (Inl e)
               | Inr st1 \<Rightarrow> loop dt0 rain0 ut0 tr0 act0 st1
          else Some (Inr st0)) = Some res"
    show "?P dt0 rain0 ut0 tr0 act0 st0 res"
    proof (intro impI)
      assume a: "dt0 = dt \<and> rain0 = rain \<and> ut0 = ut \<and> tr0 = tr \<and> act0 = act \<and> J (fst st0)"
      show "case res of Inl e \<Rightarrow> True | Inr st1 \<Rightarrow> J (fst st1)"
      proof (cases "val (snd st0) < val dt0")
        case False
        with body a show ?thesis by auto
      next
        case True
        show ?thesis
        proof (cases "sub_step dt0 rain0 ut0 tr0 act0 st0")
          case (Inl e)
          with body True show ?thesis by auto
        next
          case (Inr st1)
          with body True have l: "loop dt0 rain0 ut0 tr0 act0 st1 = Some res" by simp
          from Inr a step [of "fst st0" "snd st0" "fst st1" "snd st1"] have "J (fst st1)"
            by simp
          with ih [OF l] a show ?thesis by simp
        qed
      qed
    qed
  qed
  with assms(2) show ?thesis by simp
qed

lemma write_fields_fields:
  assumes "write_fields act s = Inr s'"
  shows "\<exists>d v q. s' = s\<lparr> grid := (grid s)\<lparr> surface_water__depth := d,
            surface_water__velocity := v, surface_water__discharge := q \<rparr> \<rparr>"
proof (cases "hnew s")
  case None
  with assms show ?thesis by (simp add: write_fields_def)
next
  case (Some h)
  with assms show ?thesis
    unfolding write_fields_def
    apply (simp only: option.case)
    apply (erule ebind_InrE)+
    apply (simp only: sum.inject)
    apply blast
    done
qed

lemma write_fields_slot_ok:
  assumes "write_fields act s = Inr s'" and "slot_ok g s"
  shows "slot_ok g s'"
  using write_fields_fields [OF assms(1)] assms(2) by (auto simp: slot_ok_def)

lemma run_one_step_slot_ok:
  assumes "run_one_step s dt rain ut tr = Some (Inr s')" and ok: "slot_ok g s"
  shows "slot_ok g s'"
proof -
  from assms(1) obtain h s1 st where
    s1: "(if ut then update_topographic_params (s\<lparr> hnew := Some h \<rparr>)
          else Inr (s\<lparr> hnew := Some h \<rparr>)) = Inr s1"
    and l: "substep_loop dt rain ut tr (p_active s) (s1, Py 0) = Some (Inr st)"
    and w: "write_fields (p_active s) (fst st) = Inr s'"
    by (auto simp: run_one_step_def Let_def split: sum.splits option.splits)
  from s1 have "s1 = s\<lparr> hnew := Some h \<rparr>"
    by (simp add: update_topographic_params_NameError split: if_splits)
  with ok have "slot_ok g s1" by (simp add: slot_ok_def)
  then have "slot_ok g (fst st)"
    using substep_loop_invariant [OF l, of "slot_ok g"] sub_step_slot_ok by auto
  with w show ?thesis by (rule write_fields_slot_ok)
qed

lemma internal_timestep_slot_ok:
  assumes "internal_timestep s = Inr (v, s')" and "slot_ok g s"
  shows "slot_ok g s'"
  using assms
  by (auto simp: internal_timestep_def elim!: ebind_InrE calc_slot_ok
      split: option.splits prod.splits)

lemma reachable_slot_ok:
  assumes "reachable g s" and "length (status_at_node g) = number_of_nodes g"
  shows "slot_ok g s"
  using assms
proof (induction rule: reachable.induct)
  case (r_init mannings_n critical_flow_depth mannings_epsilon dtm max_courant min_depth s)
  then show ?case by (simp add: init_slot_ok)
next
  case (r_run s dt rain ut tr s')
  then show ?case by (simp add: run_one_step_slot_ok)
next
  case (r_calc s ut tr idt s')
  then show ?case by (simp add: calc_slot_ok)
next
  case (r_topo s s')
  then show ?case by (simp add: update_topographic_params_NameError)
next
  case (r_step s v s')
  then show ?case by (simp add: internal_timestep_slot_ok)
qed

lemma take_last_slot:
  assumes "length xs = Suc n" and "xs ! n = (0::real)"
  shows "take_int xs [- 1] = Inr [0]"
  using assms by (simp add: wrap_index_def Let_def)

text \<open>
  Claim C10 (\<^verbatim>\<open>qx\<close> and \<^verbatim>\<open>qy\<close> have one slot more than the grid has nodes; the
  slot is zero at construction and stays zero, since the flux stage writes at active
  indices only and these are smaller than the number of nodes; a missing neighbour is the
  index -1, so a lookup through it reads zero). For a grid whose status array has one
  entry per node, on every reachable instance.
\<close>

theorem trailing_slot_reads_zero:
  assumes "reachable g s" and "length (status_at_node g) = number_of_nodes g"
  shows "length (qx s) = number_of_nodes g + 1 \<and> length (qy s) = number_of_nodes g + 1
    \<and> qx s ! number_of_nodes g = 0 \<and> qy s ! number_of_nodes g = 0
    \<and> list_all (\<lambda>i. i < number_of_nodes g) (p_active s)
    \<and> p_neighbors s =
        map (\<lambda>(e, n, w, so).
               ((if e = BAD_INDEX g then - 1 else e), (if n = BAD_INDEX g then - 1 else n),
                (if w = BAD_INDEX g then - 1 else w), (if so = BAD_INDEX g then - 1 else so)))
          (adjacent_nodes_at_node g)
    \<and> take_int (qx s) [- 1] = Inr [0] \<and> take_int (qy s) [- 1] = Inr [0]"
proof -
  from reachable_slot_ok [OF assms] have ok: "slot_ok g s" .
  then have "length (qx s) = Suc (number_of_nodes g)" "qx s ! number_of_nodes g = 0"
    "length (qy s) = Suc (number_of_nodes g)" "qy s ! number_of_nodes g = 0"
    by (simp_all add: slot_ok_def)
  then have "take_int (qx s) [- 1] = Inr [0]" "take_int (qy s) [- 1] = Inr [0]"
    by (simp_all only: take_last_slot)
  with ok show ?thesis by (simp add: slot_ok_def normalize_neighbors_def Let_def)
qed

theorem trailing_slot_reads_zero_witness:
  "reachable open3x3 kw3
   \<and> length (status_at_node open3x3) = number_of_nodes open3x3
   \<and> length (qx kw3) = number_of_nodes open3x3 + 1
   \<and> qx kw3 ! number_of_nodes open3x3 = 0 \<and> qy kw3 ! number_of_nodes open3x3 = 0
   \<and> take_int (qx kw3) [- 1] = Inr [0] \<and> take_int (qy kw3) [- 1] = Inr [0]"
proof -
  have r: "reachable open3x3 kw3"
    by (rule r_run [OF r_init [OF init_open] run_kw0])
  have l: "length (status_at_node open3x3) = number_of_nodes open3x3"
    by (simp add: open3x3_def raster3x3_def)
  from trailing_slot_reads_zero [OF r l] r l show ?thesis by blast
qed

subsection \<open>The stable sub-step\<close>



















subsection \<open>The water-balance trace\<close>

lemma sub_step_water_balance:
  assumes "sub_step dt rain ut tr act (s, e) = Inr (s', e')"
  shows "if tr then \<exists>x. p_water_balance s' = p_water_balance s @ [x]
         else p_water_balance s' = p_water_balance s"
proof -
  from assms obtain idt s1 d where c: "calc_grads_and_timesteps s ut tr = Inr (idt, s1)"
    and t: "transport s1 d rain act = Inr s'"
    by (rule sub_step_parts)
  from transport_fields [OF t] have "p_water_balance s' = p_water_balance s1" by auto
  with calc_fields [OF c] show ?thesis by simp
qed

lemma sum_list_map2_diff:
  "length xs = length ys \<Longrightarrow>
     sum_list (map2 (\<lambda>a b. a - b) xs ys) = sum_list xs - sum_list (ys :: real list)"
  by (induction xs ys rule: list_induct2) simp_all

lemma calc_tracked_sample:
  assumes c: "calc_grads_and_timesteps s ut True = Inr (idt, s')"
    and h: "hnew s = Some h"
    and ha: "take_idx (surface_water__depth (grid s)) (p_active s) = Inr ha"
    and l: "length h = length ha"
  shows "p_water_balance s' = p_water_balance s @
           [fdiv (sum_list (map (\<lambda>x. max x (min_surface_water_depth s)) h) - sum_list ha)
              (sum_list ha)]"
proof (cases ut)
  case True
  with c show ?thesis
    by (simp add: calc_grads_and_timesteps_def Let_def update_topographic_params_NameError
        split: option.splits)
next
  case False
  from c show ?thesis
    unfolding calc_grads_and_timesteps_def Let_def h using False ha l
    apply (simp add: bcast2_def sum_list_map2_diff)
    apply (erule ebind_InrE)+
    apply auto
    done
qed

lemma sub_step_tracked_sample:
  assumes "sub_step dt rain ut True act (s, e) = Inr (s', e')"
    and h: "hnew s = Some h"
    and ha: "take_idx (surface_water__depth (grid s)) (p_active s) = Inr ha"
    and l: "length h = length ha"
  shows "p_water_balance s' = p_water_balance s @
           [fdiv (sum_list (map (\<lambda>x. max x (min_surface_water_depth s)) h) - sum_list ha)
              (sum_list ha)]"
proof -
  from assms(1) obtain idt s1 d where c: "calc_grads_and_timesteps s ut True = Inr (idt, s1)"
    and t: "transport s1 d rain act = Inr s'"
    by (rule sub_step_parts)
  from transport_fields [OF t] have "p_water_balance s' = p_water_balance s1" by auto
  with calc_tracked_sample [OF c h ha l] show ?thesis by simp
qed

lemma substeps_trace:
  "substeps n dt rain ut tr act st = Some st' \<Longrightarrow>
     \<exists>ws. p_water_balance (fst st') = p_water_balance (fst st) @ ws
        \<and> length ws = (if tr then n else 0)"
proof (induction n arbitrary: st)
  case 0
  then show ?case by (simp split: if_splits)
next
  case (Suc n)
  from Suc.prems obtain st1 where
    s: "sub_step dt rain ut tr act st = Inr st1" and r: "substeps n dt rain ut tr act st1 = Some st'"
    by (auto split: if_splits sum.splits)
  from s have "sub_step dt rain ut tr act (fst st, snd st) = Inr (fst st1, snd st1)" by simp
  from sub_step_water_balance [OF this] Suc.IH [OF r] show ?case
    by (cases tr) auto
qed

lemma substeps_pos:
  "substeps n dt rain ut tr act st = Some st' \<Longrightarrow> val (snd st) < val dt \<Longrightarrow> 0 < n"
  by (cases n) simp_all

lemma substep_loop_substeps:
  assumes run: "substep_loop dt rain ut tr act st = Some (Inr st')"
  shows "\<exists>n. substeps n dt rain ut tr act st = Some st'"
proof -
  let ?P = "\<lambda>(dt0::number) (rain0::rainfall) (ut0::bool) (tr0::bool) (act0::nat list)
      (st0::kwr \<times> number) (res::error + kwr \<times> number).
      (case res of Inl e \<Rightarrow> True
       | Inr st1 \<Rightarrow> \<exists>n. substeps n dt0 rain0 ut0 tr0 act0 st0 = Some st1)"
  have "?P dt rain ut tr act st (Inr st')"
  proof (rule substep_loop.raw_induct [where P = ?P, OF _ run])
    fix loop dt0 rain0 ut0 tr0 act0 st0 res
    assume ih: "\<And>dt1 rain1 ut1 tr1 act1 st1 res1.
        loop dt1 rain1 ut1 tr1 act1 st1 = Some res1 \<Longrightarrow> ?P dt1 rain1 ut1 tr1 act1 st1 res1"
      and body: "(if val (snd st0) < val dt0
          then case sub_step dt0 rain0 ut0 tr0 act0 st0 of
                 Inl e \<Rightarrow> Some (Inl e)
               | Inr st1 \<Rightarrow> loop dt0 rain0 ut0 tr0 act0 st1
          else Some (Inr st0)) = Some res"
    show "?P dt0 rain0 ut0 tr0 act0 st0 res"
    proof (cases "val (snd st0) < val dt0")
      case False
      with body have r: "res = Inr st0" by auto
      from False have "substeps 0 dt0 rain0 ut0 tr0 act0 st0 = Some st0" by simp
      then have "\<exists>n. substeps n dt0 rain0 ut0 tr0 act0 st0 = Some st0" by (rule exI)
      with r show ?thesis by simp
    next
      case True
      show ?thesis
      proof (cases "sub_step dt0 rain0 ut0 tr0 act0 st0")
        case (Inl e)
        with body True show ?thesis by auto
      next
        case (Inr st1)
        with body True have l: "loop dt0 rain0 ut0 tr0 act0 st1 = Some res" by simp
        show ?thesis
        proof (cases res)
          case (Inl e)
          then show ?thesis by simp
        next
          case r: (Inr st2)
          with ih [OF l] obtain n where "substeps n dt0 rain0 ut0 tr0 act0 st1 = Some st2"
            by auto
          with True Inr have "substeps (Suc n) dt0 rain0 ut0 tr0 act0 st0 = Some st2" by simp
          then have "\<exists>k. substeps k dt0 rain0 ut0 tr0 act0 st0 = Some st2" by (rule exI)
          with r show ?thesis by simp
        qed
      qed
    qed
  qed
  then show ?thesis by simp
qed

lemma run_one_step_trace:
  assumes "run_one_step s dt rain ut tr = Some (Inr s')"
  shows "\<exists>n h st ws. take_idx (surface_water__depth (grid s)) (p_active s) = Inr h
           \<and> substeps n dt rain ut tr (p_active s) (s\<lparr> hnew := Some h \<rparr>, Py 0) = Some st
           \<and> (0 < val dt \<longrightarrow> 0 < n)
           \<and> p_water_balance s' = p_water_balance s @ ws
           \<and> length ws = (if tr then n else 0)"
proof -
  from assms obtain h s1 st where
    d: "take_idx (surface_water__depth (grid s)) (p_active s) = Inr h"
    and s1: "(if ut then update_topographic_params (s\<lparr> hnew := Some h \<rparr>)
          else Inr (s\<lparr> hnew := Some h \<rparr>)) = Inr s1"
    and l: "substep_loop dt rain ut tr (p_active s) (s1, Py 0) = Some (Inr st)"
    and w: "write_fields (p_active s) (fst st) = Inr s'"
    by (auto simp: run_one_step_def Let_def split: sum.splits option.splits)
  from s1 have e: "s1 = s\<lparr> hnew := Some h \<rparr>"
    by (simp add: update_topographic_params_NameError split: if_splits)
  from substep_loop_substeps [OF l] e obtain n where
    n: "substeps n dt rain ut tr (p_active s) (s\<lparr> hnew := Some h \<rparr>, Py 0) = Some st"
    by auto
  from substeps_trace [OF n] obtain ws where
    ws: "p_water_balance (fst st) = p_water_balance s @ ws" "length ws = (if tr then n else 0)"
    by auto
  from write_fields_fields [OF w] have "p_water_balance s' = p_water_balance (fst st)" by auto
  with ws have "p_water_balance s' = p_water_balance s @ ws" by simp
  moreover have "0 < val dt \<longrightarrow> 0 < n"
    using substeps_pos [OF n] by simp
  ultimately show ?thesis using d n ws(2) by blast
qed

text \<open>
  Claim C9 (\<^verbatim>\<open>water_balance\<close> raises exactly when the trace is empty and returns the
  trace otherwise; the trace holds one fractional mass-imbalance sample per tracked
  sub-step). The constructor leaves the trace empty, so the accessor raises on a new
  instance. A sub-step with tracking appends one sample and keeps the earlier ones: the
  sample is the sum of the working depths, raised to the depth floor, minus the sum of
  the depth field at the active nodes, divided by that second sum (an infinity or NaN
  when the second sum is zero), and the accessor then returns the trace. A sub-step
  without tracking leaves the trace as it is. When \<^verbatim>\<open>run_one_step\<close> returns, its loop
  has ended after some number \<open>n\<close> of sub-steps (at least one for a positive macro step)
  and the trace has grown by \<open>n\<close> samples with tracking and by none without.
\<close>

theorem water_balance_trace:
  "(water_balance s = Inl ValueError) = (p_water_balance s = [])
   \<and> (p_water_balance s \<noteq> [] \<longrightarrow> water_balance s = Inr (p_water_balance s))
   \<and> (init g mannings_n critical_flow_depth mannings_epsilon dtm max_courant min_depth = Inr s0
        \<longrightarrow> p_water_balance s0 = [] \<and> water_balance s0 = Inl ValueError)
   \<and> (sub_step dt rain ut True act (sa, ea) = Inr (sa', ea') \<and> hnew sa = Some h
        \<and> take_idx (surface_water__depth (grid sa)) (p_active sa) = Inr ha
        \<and> length h = length ha \<longrightarrow>
        (let excess = sum_list (map (\<lambda>x. max x (min_surface_water_depth sa)) h) - sum_list ha;
             sample = (if sum_list ha \<noteq> 0 then Fin (excess / sum_list ha)
                       else if 0 < excess then PInf else if excess < 0 then NInf else NaN)
         in p_water_balance sa' = p_water_balance sa @ [sample]
            \<and> water_balance sa' = Inr (p_water_balance sa @ [sample])))
   \<and> (sub_step dt rain ut False act (sb, eb) = Inr (sb', eb')
        \<longrightarrow> p_water_balance sb' = p_water_balance sb)
   \<and> (run_one_step sc dt rain ut tr = Some (Inr sc') \<longrightarrow>
        (\<exists>n hc st ws.
            take_idx (surface_water__depth (grid sc)) (p_active sc) = Inr hc
          \<and> substeps n dt rain ut tr (p_active sc) (sc\<lparr> hnew := Some hc \<rparr>, Py 0) = Some st
          \<and> (0 < val dt \<longrightarrow> 0 < n)
          \<and> p_water_balance sc' = p_water_balance sc @ ws
          \<and> length ws = (if tr then n else 0)))"
proof (intro conjI impI)
  show "(water_balance s = Inl ValueError) = (p_water_balance s = [])"
    by (simp add: water_balance_def)
  show "water_balance s = Inr (p_water_balance s)" if "p_water_balance s \<noteq> []"
    using that by (simp add: water_balance_def)
next
  assume "init g mannings_n critical_flow_depth mannings_epsilon dtm max_courant min_depth = Inr s0"
  from init_fresh [OF this]
  show "p_water_balance s0 = []" "water_balance s0 = Inl ValueError"
    by (simp_all add: water_balance_def)
next
  assume a: "sub_step dt rain ut True act (sa, ea) = Inr (sa', ea') \<and> hnew sa = Some h
        \<and> take_idx (surface_water__depth (grid sa)) (p_active sa) = Inr ha
        \<and> length h = length ha"
  then have "p_water_balance sa' = p_water_balance sa @
           [fdiv (sum_list (map (\<lambda>x. max x (min_surface_water_depth sa)) h) - sum_list ha)
              (sum_list ha)]"
    by (blast intro: sub_step_tracked_sample)
  then show "let excess = sum_list (map (\<lambda>x. max x (min_surface_water_depth sa)) h) - sum_list ha;
             sample = (if sum_list ha \<noteq> 0 then Fin (excess / sum_list ha)
                       else if 0 < excess then PInf else if excess < 0 then NInf else NaN)
         in p_water_balance sa' = p_water_balance sa @ [sample]
            \<and> water_balance sa' = Inr (p_water_balance sa @ [sample])"
    by (simp add: Let_def fdiv_def water_balance_def)
next
  assume "sub_step dt rain ut False act (sb, eb) = Inr (sb', eb')"
  from sub_step_water_balance [OF this] show "p_water_balance sb' = p_water_balance sb" by simp
next
  assume "run_one_step sc dt rain ut tr = Some (Inr sc')"
  then show "\<exists>n hc st ws.
            take_idx (surface_water__depth (grid sc)) (p_active sc) = Inr hc
          \<and> substeps n dt rain ut tr (p_active sc) (sc\<lparr> hnew := Some hc \<rparr>, Py 0) = Some st
          \<and> (0 < val dt \<longrightarrow> 0 < n)
          \<and> p_water_balance sc' = p_water_balance sc @ ws
          \<and> length ws = (if tr then n else 0)"
    by (rule run_one_step_trace)
qed

theorem water_balance_trace_witness:
  "init dry3x3 1 1 (1 / 3) (Some 0.3) 0.2 1 = Inr kw_dry
   \<and> p_water_balance kw_dry = [] \<and> water_balance kw_dry = Inl ValueError
   \<and> sub_step dt02 (Scalar 0) False True perimeter (kw_dry_entry, Py 0) = Inr (kw_dry2, t02)
   \<and> hnew kw_dry_entry = Some [1 / 2, 1, 1, 1, 1, 1, 1, 1]
   \<and> take_idx (surface_water__depth (grid kw_dry_entry)) (p_active kw_dry_entry)
       = Inr [1 / 2, 1, 1, 1, 1, 1, 1, 1]
   \<and> p_water_balance kw_dry2 = [Fin (1 / 15)]
   \<and> water_balance kw_dry2 = Inr [Fin (1 / 15)]
   \<and> sub_step dt02 (Scalar 0) False False perimeter (kw_entry, Py 0) = Inr (kw2, t02)
   \<and> p_water_balance kw2 = p_water_balance kw_entry
   \<and> run_one_step kw_dry dt02 (Scalar 0) False True = Some (Inr kw_dry3)
   \<and> 0 < val dt02
   \<and> substeps 1 dt02 (Scalar 0) False True (p_active kw_dry) (kw_dry_entry, Py 0)
       = Some (kw_dry2, t02)
   \<and> p_water_balance kw_dry3 = p_water_balance kw_dry @ [Fin (1 / 15)]
   \<and> water_balance kw_dry3 = Inr [Fin (1 / 15)]"
proof -
  note t = water_balance_trace
    [where g = dry3x3 and mannings_n = 1 and critical_flow_depth = 1
       and mannings_epsilon = "1 / 3" and dtm = "Some 0.3" and max_courant = "0.2"
       and min_depth = 1 and ?s0.0 = kw_dry and dt = dt02 and rain = "Scalar 0" and ut = False
       and act = perimeter and sa = kw_dry_entry and ea = "Py 0" and sa' = kw_dry2 and ea' = t02
       and h = "[1 / 2, 1, 1, 1, 1, 1, 1, 1]" and ha = "[1 / 2, 1, 1, 1, 1, 1, 1, 1]"
       and sb = kw_entry and eb = "Py 0" and sb' = kw2 and eb' = t02
       and sc = kw_dry and tr = True and sc' = kw_dry3 and s = kw_dry3]
  have h: "hnew kw_dry_entry = Some [1 / 2, 1, 1, 1, 1, 1, 1, 1]"
    by (simp add: dry_defs)
  have d: "take_idx (surface_water__depth (grid kw_dry_entry)) (p_active kw_dry_entry)
       = Inr [1 / 2, 1, 1, 1, 1, 1, 1, 1]"
    by (simp add: dry_defs take_idx_def)
  have e: "p_water_balance kw_dry_entry = []" "min_surface_water_depth kw_dry_entry = 1"
    by (simp_all add: dry_defs)
  from t init_dry have 1: "p_water_balance kw_dry = []" "water_balance kw_dry = Inl ValueError"
    by blast+
  from t sub_step_dry h d
  have "let excess = sum_list (map (\<lambda>x. max x (min_surface_water_depth kw_dry_entry))
                                 [1 / 2, 1, 1, 1, 1, 1, 1, 1])
                       - sum_list [1 / 2, 1, 1, 1, 1, 1, 1, 1 :: real];
             sample = (if sum_list [1 / 2, 1, 1, 1, 1, 1, 1, 1 :: real] \<noteq> 0
                       then Fin (excess / sum_list [1 / 2, 1, 1, 1, 1, 1, 1, 1])
                       else if 0 < excess then PInf else if excess < 0 then NInf else NaN)
         in p_water_balance kw_dry2 = p_water_balance kw_dry_entry @ [sample]
            \<and> water_balance kw_dry2 = Inr (p_water_balance kw_dry_entry @ [sample])"
    by simp
  then have 2: "p_water_balance kw_dry2 = [Fin (1 / 15)]"
    "water_balance kw_dry2 = Inr [Fin (1 / 15)]"
    by (simp_all add: Let_def e)
  from t sub_step_entry have 3: "p_water_balance kw2 = p_water_balance kw_entry" by blast
  have p: "0 < val dt02" by (simp add: val_dt02)
  have a: "p_active kw_dry = perimeter" by (simp add: dry_defs)
  have 4: "p_water_balance kw_dry3 = p_water_balance kw_dry @ [Fin (1 / 15)]"
    by (simp add: dry_defs)
  have n: "p_water_balance kw_dry3 \<noteq> []" by (simp add: dry_defs)
  with t have "water_balance kw_dry3 = Inr (p_water_balance kw_dry3)" by blast
  with 4 1 have 5: "water_balance kw_dry3 = Inr [Fin (1 / 15)]" by simp
  from init_dry 1 sub_step_dry h d 2 sub_step_entry 3 run_dry p substeps_dry a 4 5
  show ?thesis by simp
qed

subsection \<open>Termination of the sub-step loop\<close>

lemmas neg_defs = kwn1_def kwn0_def kw_open_def open3x3_def raster3x3_def perimeter_def

lemma init_neg: "init open3x3 1 1 (1 / 3) (Some (- 1)) 0.2 1 = Inr kwn0"
  by (simp add: init_defs open3x3_def raster3x3_def kwn0_def kw_open_def perimeter_def)

lemma calc_neg_entry:
  "calc_grads_and_timesteps (kwn0\<lparr> hnew := Some (replicate 8 1) \<rparr>) False False
     = Inr (Fin (- 1), kwn1)"
  by (simp add: calc_grads_and_timesteps_def neg_defs Let_def
      arr_defs replicate8 replicate9 replicate10 list_update_Cons_numeral)

lemma calc_neg: "calc_grads_and_timesteps kwn1 False False = Inr (Fin (- 1), kwn1)"
  by (simp add: calc_grads_and_timesteps_def neg_defs Let_def
      arr_defs replicate8 replicate9 replicate10 list_update_Cons_numeral)

lemma transport_neg: "transport kwn1 0 (Scalar 0) perimeter = Inr kwn1"
  by (simp add: transport_def neg_defs Let_def arr_defs replicate8 replicate9 replicate10
      list_update_Cons_numeral)

lemma sub_step_neg_entry:
  "sub_step dt02 (Scalar 0) False False perimeter (kwn0\<lparr> hnew := Some (replicate 8 1) \<rparr>, Py 0)
     = Inr (kwn1, Np 0)"
  by (simp add: sub_step_def calc_neg_entry clipped_dt_def dt02_def transport_neg)

lemma sub_step_neg:
  "sub_step dt02 (Scalar 0) False False perimeter (kwn1, Np 0) = Inr (kwn1, Np 0)"
  by (simp add: sub_step_def calc_neg clipped_dt_def dt02_def transport_neg)

lemma substep_loop_stuck:
  "substep_loop dt02 (Scalar 0) False False perimeter (kwn1, Np 0) = None"
proof (cases "substep_loop dt02 (Scalar 0) False False perimeter (kwn1, Np 0)")
  case None
  then show ?thesis .
next
  case (Some res)
  let ?P = "\<lambda>(dt0::number) (rain0::rainfall) (ut0::bool) (tr0::bool) (act0::nat list)
      (st0::kwr \<times> number) (res::error + kwr \<times> number).
      \<not> (dt0 = dt02 \<and> rain0 = Scalar 0 \<and> \<not> ut0 \<and> \<not> tr0 \<and> act0 = perimeter
         \<and> st0 = (kwn1, Np 0))"
  have "?P dt02 (Scalar 0) False False perimeter (kwn1, Np 0) res"
  proof (rule substep_loop.raw_induct [where P = ?P, OF _ Some])
    fix loop dt0 rain0 ut0 tr0 act0 st0 res0
    assume ih: "\<And>dt1 rain1 ut1 tr1 act1 st1 res1.
        loop dt1 rain1 ut1 tr1 act1 st1 = Some res1 \<Longrightarrow> ?P dt1 rain1 ut1 tr1 act1 st1 res1"
      and body: "(if val (snd st0) < val dt0
          then case sub_step dt0 rain0 ut0 tr0 act0 st0 of
                 Inl e \<Rightarrow> Some (Inl e)
               | Inr st1 \<Rightarrow> loop dt0 rain0 ut0 tr0 act0 st1
          else Some (Inr st0)) = Some res0"
    show "?P dt0 rain0 ut0 tr0 act0 st0 res0"
    proof
      assume a: "dt0 = dt02 \<and> rain0 = Scalar 0 \<and> \<not> ut0 \<and> \<not> tr0 \<and> act0 = perimeter
         \<and> st0 = (kwn1, Np 0)"
      with body have "loop dt02 (Scalar 0) False False perimeter (kwn1, Np 0) = Some res0"
        by (simp add: sub_step_neg val_dt02)
      from ih [OF this] show False by simp
    qed
  qed
  then show ?thesis by simp
qed

lemma run_neg: "run_one_step kwn0 dt02 (Scalar 0) False False = None"
proof -
  have a: "p_active kwn0 = perimeter" by (simp add: kwn0_def kw_open_def)
  have d: "take_idx (surface_water__depth (grid kwn0)) perimeter = Inr (replicate 8 1)"
    by (simp add: neg_defs take_idx_def replicate8 replicate9)
  have "substep_loop dt02 (Scalar 0) False False perimeter
          (kwn0\<lparr> hnew := Some (replicate 8 1) \<rparr>, Py 0) = None"
    apply (subst substep_loop.simps)
    apply (simp add: sub_step_neg_entry substep_loop_stuck val_dt02)
    done
  then show ?thesis by (simp add: run_one_step_def Let_def a d)
qed

text \<open>
  Claim C4 (for a positive macro step the sub-step loop ends after finitely many
  iterations, each sub-step length being positive). The constructor means to refuse a
  largest sub-step that is not positive (its message is "dt must be > 0.0") but tests
  only whether the value is close to zero, so -1 passes. Every sub-step length is then
  negative and is clipped to zero, the clock never advances, and \<^verbatim>\<open>run_one_step\<close>
  does not return from a macro step of 0.2 on the open 3 by 3 raster.
\<close>

theorem negative_dt_max_never_returns:
  "init open3x3 1 1 (1 / 3) (Some (- 1)) 0.2 1 = Inr kwn0
   \<and> dt_max kwn0 = Some (- 1) \<and> 0 < val dt02
   \<and> run_one_step kwn0 dt02 (Scalar 0) False False = None"
proof -
  have "dt_max kwn0 = Some (- 1)" by (simp add: kwn0_def kw_open_def)
  moreover have "0 < val dt02" by (simp add: dt02_def)
  ultimately show ?thesis using init_neg run_neg by simp
qed


end
